theory Spec2Isabelle
  imports Main "HOL-Library.AList"
begin

section \<open>Data model\<close>

text \<open>
  JavaScript values are modelled as follows. A text column that the database may leave
  NULL is a \<open>string option\<close> (\<open>None\<close> is \<open>null\<close>). Strings are ASCII text.
  An exception thrown by the runtime is a value of \<open>js_error\<close>, and a function that
  may throw returns \<open>js_error + 'a\<close>.
\<close>

datatype js_error = SyntaxError | TypeError

text \<open>
  The user's \<open>assignedGroups\<close> and \<open>assignedCostCodes\<close> fields, as
  \<open>filterDataByPermissions\<close> may find them: \<open>null\<close>, a string (the JSON text the
  user table stores, written by \<open>JSON.stringify\<close> of an array of strings), or an
  array of strings already decoded.
\<close>

datatype assigned = Absent | Text string | Arr "string list"

record user =
  role :: string
  branch :: "string option"
  assignedCostCodes :: assigned
  assignedGroups :: assigned

text \<open>
  One row of the purchases view as a branch database returns it. Only the columns the
  core reads are kept; the two totals are integers (minor currency units).
\<close>

record db_row =
  orderNumber :: string
  lineTotal :: "int option"
  orderTotal :: "int option"
  costCode :: "string option"
  group_name :: "string option"

text \<open>
  A processed record: the row's own columns (the object spread \<open>...record\<close>) and the
  fields \<open>_processRecords\<close> adds.
\<close>

record purchase = db_row +
  branch :: string
  branchName :: string
  sourceDatabase :: string
  amount :: int
  category :: string
  status :: string

section \<open>Permission filter (authMiddleware.js)\<close>

text \<open>
  The decoding step of \<open>filterDataByPermissions\<close>, the same for both fields:
  a falsy field (\<open>null\<close> or the empty string) gives \<open>null\<close>, a string is handed to
  \<open>JSON.parse\<close>, an array is taken as it is. \<open>JSON.parse\<close> belongs to the runtime
  and is a parameter: it throws a \<open>SyntaxError\<close> or returns \<open>null\<close> or an array
  of strings.
\<close>

definition decodeAssigned ::
  "(string \<Rightarrow> js_error + string list option) \<Rightarrow> assigned \<Rightarrow> js_error + string list option"
where
  "decodeAssigned JSON_parse field =
     (case field of
        Absent \<Rightarrow> Inr None
      | Text s \<Rightarrow> (if s = [] then Inr None else JSON_parse s)
      | Arr xs \<Rightarrow> Inr (Some xs))"

text \<open>\<open>Array.prototype.includes\<close> on an array of strings, asked for a nullable string.\<close>

definition array_includes :: "string list \<Rightarrow> string option \<Rightarrow> bool" where
  "array_includes xs v = (case v of None \<Rightarrow> False | Some s \<Rightarrow> s \<in> set xs)"

text \<open>
  The branch step: applied when \<open>user.branch\<close> is truthy and is not \<open>'ALL'\<close>.
\<close>

definition restrictByBranch :: "user \<Rightarrow> purchase list \<Rightarrow> purchase list" where
  "restrictByBranch u xs =
     (case user.branch u of
        None \<Rightarrow> xs
      | Some b \<Rightarrow>
          if b \<noteq> [] \<and> b \<noteq> ''ALL''
          then filter (\<lambda>item. purchase.branch item = b) xs
          else xs)"

definition hasRestrictions :: "string list option \<Rightarrow> bool" where
  "hasRestrictions a = (case a of None \<Rightarrow> False | Some xs \<Rightarrow> 0 < length xs)"

definition keepItem :: "string list option \<Rightarrow> string list option \<Rightarrow> purchase \<Rightarrow> bool" where
  "keepItem assignedGroups' assignedCodes item =
     (let inAssignedGroup =
            (hasRestrictions assignedGroups' \<and>
             (case assignedGroups' of None \<Rightarrow> False | Some gs \<Rightarrow> array_includes gs (group_name item)));
          inAssignedCodes =
            (hasRestrictions assignedCodes \<and>
             (case assignedCodes of None \<Rightarrow> False
              | Some cs \<Rightarrow> list_ex (\<lambda>code. costCode item = Some code) cs))
      in inAssignedGroup \<or> inAssignedCodes)"

definition filterDataByPermissions ::
  "(string \<Rightarrow> js_error + string list option) \<Rightarrow> purchase list \<Rightarrow> user \<Rightarrow> js_error + purchase list"
where
  "filterDataByPermissions JSON_parse data' u =
     (let filteredData = restrictByBranch u data' in
      case decodeAssigned JSON_parse (assignedGroups u) of
        Inl e \<Rightarrow> Inl e
      | Inr assignedGroups' \<Rightarrow>
     (case decodeAssigned JSON_parse (assignedCostCodes u) of
        Inl e \<Rightarrow> Inl e
      | Inr assignedCodes \<Rightarrow>
          if role u \<noteq> ''ADMIN'' then
            if hasRestrictions assignedGroups' \<or> hasRestrictions assignedCodes
            then Inr (filter (keepItem assignedGroups' assignedCodes) filteredData)
            else if assignedCodes = Some [] then Inr []
            else Inr filteredData
          else Inr filteredData))"

section \<open>Ephemeral cache (cacheService.js)\<close>

text \<open>
  The service holds a JavaScript \<open>Map\<close> from keys to items; an association list
  keeps the map's insertion order. \<open>Date.now()\<close> is a parameter of each operation
  (milliseconds, an integer). A stored value is a payload of type \<open>'v\<close>; the result of
  \<open>get\<close> is \<open>None\<close> for the \<open>null\<close> the source returns on a miss.
\<close>

record 'v cache_item =
  item_value :: 'v
  expiresAt :: int
  createdAt :: int

type_synonym 'v cache = "(string \<times> 'v cache_item) list"

text \<open>
  \<open>get\<close> returns the value read and the cache as the read leaves it. The source
  tests \<open>item.expiresAt && Date.now() > item.expiresAt\<close>: an expiry of \<open>0\<close> is
  falsy and never expires.
\<close>

definition CacheService_get :: "int \<Rightarrow> string \<Rightarrow> 'v cache \<Rightarrow> 'v option \<times> 'v cache" where
  "CacheService_get now key cache =
     (case map_of cache key of
        None \<Rightarrow> (None, cache)
      | Some item \<Rightarrow>
          if expiresAt item \<noteq> 0 \<and> now > expiresAt item
          then (None, AList.delete key cache)
          else (Some (item_value item), cache))"

text \<open>\<open>set(key, value, ttlSeconds = 300)\<close>: an omitted TTL is \<open>None\<close>.\<close>

definition CacheService_set ::
  "int \<Rightarrow> string \<Rightarrow> 'v \<Rightarrow> int option \<Rightarrow> 'v cache \<Rightarrow> 'v cache"
where
  "CacheService_set now key v ttlSeconds cache =
     (let ttl = (case ttlSeconds of None \<Rightarrow> 300 | Some t \<Rightarrow> t) in
      AList.update key
        \<lparr>item_value = v, expiresAt = now + ttl * 1000, createdAt = now\<rparr> cache)"

section \<open>Example data\<close>

text \<open>Concrete records and users on which the theorems below are instantiated.\<close>

definition example_purchase :: "string \<Rightarrow> string option \<Rightarrow> string option \<Rightarrow> purchase" where
  "example_purchase b g c =
     \<lparr>orderNumber = ''PO-1'', lineTotal = Some 100, orderTotal = Some 250,
      costCode = c, group_name = g,
      purchase.branch = b, branchName = b, sourceDatabase = b, amount = 100,
      category = (case g of None \<Rightarrow> ''Uncategorized'' | Some x \<Rightarrow> x),
      status = ''Completed''\<rparr>"

definition example_user :: "string \<Rightarrow> string \<Rightarrow> assigned \<Rightarrow> assigned \<Rightarrow> user" where
  "example_user r b g c =
     \<lparr>role = r, user.branch = Some b, assignedCostCodes = c, assignedGroups = g\<rparr>"

text \<open>A \<open>JSON.parse\<close> that knows the two texts the examples use.\<close>

definition example_parse :: "string \<Rightarrow> js_error + string list option" where
  "example_parse s =
     (if s = ''[]'' then Inr (Some [])
      else if s = ''null'' then Inr None
      else Inl SyntaxError)"

section \<open>Theorems\<close>

subsection \<open>Permission filter\<close>

lemma array_includes_iff: "array_includes xs v \<longleftrightarrow> (\<exists>s. v = Some s \<and> s \<in> set xs)"
  by (cases v) (simp_all add: array_includes_def)

lemma keepItem_iff:
  "keepItem g c item \<longleftrightarrow>
     (\<exists>gs s. g = Some gs \<and> group_name item = Some s \<and> s \<in> set gs) \<or>
     (\<exists>cs s. c = Some cs \<and> costCode item = Some s \<and> s \<in> set cs)"
  by (cases g; cases c)
     (auto simp: keepItem_def hasRestrictions_def array_includes_iff list_ex_iff)

text \<open>
  C1. For a non-admin user whose decoded assigned-groups list or decoded assigned
  cost-code array is non-empty, the filter returns, in order, exactly those records of
  the branch-restricted list whose group is a member of the assigned groups or whose
  cost code is equal, as a string, to one of the assigned cost codes: a disjunction of
  the two restrictions.
\<close>

theorem filter_or_semantics:
  assumes "role u \<noteq> ''ADMIN''"
    and "decodeAssigned P (assignedGroups u) = Inr g"
    and "decodeAssigned P (assignedCostCodes u) = Inr c"
    and "(\<exists>gs. g = Some gs \<and> gs \<noteq> []) \<or> (\<exists>cs. c = Some cs \<and> cs \<noteq> [])"
  shows "filterDataByPermissions P xs u =
           Inr (filter
                 (\<lambda>item.
                    (\<exists>gs s. g = Some gs \<and> group_name item = Some s \<and> s \<in> set gs) \<or>
                    (\<exists>cs s. c = Some cs \<and> costCode item = Some s \<and> s \<in> set cs))
                 (restrictByBranch u xs))"
proof -
  have "hasRestrictions g \<or> hasRestrictions c"
    using assms(4) by (auto simp: hasRestrictions_def)
  then have "filterDataByPermissions P xs u =
               Inr (filter (keepItem g c) (restrictByBranch u xs))"
    using assms(1-3) by (simp add: filterDataByPermissions_def)
  moreover have "keepItem g c =
      (\<lambda>item.
         (\<exists>gs s. g = Some gs \<and> group_name item = Some s \<and> s \<in> set gs) \<or>
         (\<exists>cs s. c = Some cs \<and> costCode item = Some s \<and> s \<in> set cs))"
    by (rule ext) (rule keepItem_iff)
  ultimately show ?thesis
    by simp
qed

theorem filter_or_semantics_witness:
  "filterDataByPermissions example_parse
     [example_purchase ''PMB'' (Some ''Electrical'') (Some ''PMB-ELEC-7''),
      example_purchase ''PMB'' (Some ''Plumbing'') (Some ''PMB-MNT-001''),
      example_purchase ''PMB'' (Some ''Plumbing'') (Some ''PMB-MNT-0010''),
      example_purchase ''PTA'' (Some ''Electrical'') (Some ''PMB-MNT-001'')]
     (example_user ''User'' ''PMB'' (Arr [''Electrical'']) (Arr [''PMB-MNT-001''])) =
   Inr [example_purchase ''PMB'' (Some ''Electrical'') (Some ''PMB-ELEC-7''),
        example_purchase ''PMB'' (Some ''Plumbing'') (Some ''PMB-MNT-001'')]"
  using filter_or_semantics
    [of "example_user ''User'' ''PMB'' (Arr [''Electrical'']) (Arr [''PMB-MNT-001''])"
        example_parse "Some [''Electrical'']" "Some [''PMB-MNT-001'']"]
  by (simp add: example_user_def example_purchase_def decodeAssigned_def restrictByBranch_def)

text \<open>
  C2. A non-admin user whose assigned cost codes decode to the empty array and whose
  assigned groups decode to \<open>null\<close> or to the empty array gets the empty list,
  whatever the records are.
\<close>

theorem explicit_deny_all:
  assumes "role u \<noteq> ''ADMIN''"
    and "decodeAssigned P (assignedCostCodes u) = Inr (Some [])"
    and "decodeAssigned P (assignedGroups u) = Inr None \<or>
         decodeAssigned P (assignedGroups u) = Inr (Some [])"
  shows "filterDataByPermissions P xs u = Inr []"
  using assms by (auto simp: filterDataByPermissions_def hasRestrictions_def)

theorem explicit_deny_all_witness:
  "filterDataByPermissions example_parse
     [example_purchase ''PMB'' (Some ''Electrical'') (Some ''PMB-ELEC-7''),
      example_purchase ''PTA'' None None]
     (example_user ''User'' ''ALL'' Absent (Text ''[]'')) = Inr [] \<and>
   filterDataByPermissions example_parse
     [example_purchase ''PMB'' (Some ''Electrical'') (Some ''PMB-ELEC-7'')]
     (example_user ''User'' ''PMB'' (Arr []) (Arr [])) = Inr []"
  using explicit_deny_all [of "example_user ''User'' ''ALL'' Absent (Text ''[]'')" example_parse]
    explicit_deny_all [of "example_user ''User'' ''PMB'' (Arr []) (Arr [])" example_parse]
  by (simp add: example_user_def decodeAssigned_def example_parse_def)

text \<open>
  C3. For a user with role ADMIN whose assignment fields decode, no group or cost-code
  filtering is applied: with a specific branch other than the sentinel \<open>'ALL'\<close> the
  result is exactly the records whose branch field equals the user's branch, and with
  the sentinel the input comes back unchanged.
\<close>

theorem admin_branch_only:
  assumes "role u = ''ADMIN''"
    and "decodeAssigned P (assignedGroups u) = Inr g"
    and "decodeAssigned P (assignedCostCodes u) = Inr c"
  shows "(user.branch u = Some b \<and> b \<noteq> [] \<and> b \<noteq> ''ALL'' \<longrightarrow>
            filterDataByPermissions P xs u = Inr (filter (\<lambda>item. purchase.branch item = b) xs)) \<and>
         (user.branch u = Some ''ALL'' \<longrightarrow> filterDataByPermissions P xs u = Inr xs)"
  using assms by (simp add: filterDataByPermissions_def restrictByBranch_def)

theorem admin_branch_only_witness:
  "filterDataByPermissions example_parse
     [example_purchase ''PMB'' (Some ''Electrical'') (Some ''PMB-ELEC-7''),
      example_purchase ''PTA'' (Some ''Plumbing'') (Some ''PTA-MNT-001''),
      example_purchase ''PMB'' None None]
     (example_user ''ADMIN'' ''PMB'' (Arr [''Roofing'']) (Text ''[]'')) =
   Inr [example_purchase ''PMB'' (Some ''Electrical'') (Some ''PMB-ELEC-7''),
        example_purchase ''PMB'' None None] \<and>
   filterDataByPermissions example_parse
     [example_purchase ''PMB'' (Some ''Electrical'') (Some ''PMB-ELEC-7''),
      example_purchase ''PTA'' (Some ''Plumbing'') (Some ''PTA-MNT-001'')]
     (example_user ''ADMIN'' ''ALL'' (Arr [''Roofing'']) (Text ''[]'')) =
   Inr [example_purchase ''PMB'' (Some ''Electrical'') (Some ''PMB-ELEC-7''),
        example_purchase ''PTA'' (Some ''Plumbing'') (Some ''PTA-MNT-001'')]"
  using admin_branch_only
    [of "example_user ''ADMIN'' ''PMB'' (Arr [''Roofing'']) (Text ''[]'')" example_parse
        "Some [''Roofing'']" "Some []" "''PMB''"]
    admin_branch_only
    [of "example_user ''ADMIN'' ''ALL'' (Arr [''Roofing'']) (Text ''[]'')" example_parse
        "Some [''Roofing'']" "Some []" "''ALL''"]
  by (simp add: example_user_def example_purchase_def decodeAssigned_def example_parse_def)

subsection \<open>Ephemeral cache\<close>

lemma map_of_CacheService_set:
  "map_of (CacheService_set t0 key v (Some ttl) c) =
     (map_of c)(key \<mapsto> \<lparr>item_value = v, expiresAt = t0 + ttl * 1000, createdAt = t0\<rparr>)"
  by (simp add: CacheService_set_def update_conv')

text \<open>
  C9. For a cache whose entry under the key, if any, carries a non-zero expiry timestamp
  (every entry written by \<open>set\<close> at a positive clock reading with a non-negative TTL
  does): \<open>get\<close> misses exactly when the key is absent or the entry's expiry is earlier
  than the clock; a read of an expired entry deletes it and any other read leaves the
  cache as it was. \<open>set\<close> overwrites the entry under the key with the value and the
  expiry \<open>now + ttlSeconds * 1000\<close>, leaves the other keys alone, and a \<open>get\<close> at
  any time strictly before that expiry returns the value.
\<close>

theorem cache_get_set:
  fixes cache c0 :: "'v cache"
  assumes "\<And>item. map_of cache key = Some item \<Longrightarrow> expiresAt item \<noteq> 0"
  shows "(fst (CacheService_get now key cache) = None \<longleftrightarrow>
            map_of cache key = None \<or>
            (\<exists>item. map_of cache key = Some item \<and> expiresAt item < now)) \<and>
         snd (CacheService_get now key cache) =
           (if \<exists>item. map_of cache key = Some item \<and> expiresAt item < now
            then AList.delete key cache else cache) \<and>
         map_of (CacheService_set t0 key v (Some ttl) c0) =
           (map_of c0)(key \<mapsto> \<lparr>item_value = v, expiresAt = t0 + ttl * 1000, createdAt = t0\<rparr>) \<and>
         (0 < t0 \<and> 0 \<le> ttl \<longrightarrow>
            (\<forall>item. map_of (CacheService_set t0 key v (Some ttl) c0) key = Some item \<longrightarrow>
               expiresAt item \<noteq> 0)) \<and>
         (t < t0 + ttl * 1000 \<longrightarrow>
            fst (CacheService_get t key (CacheService_set t0 key v (Some ttl) c0)) = Some v)"
proof (intro conjI)
  show "fst (CacheService_get now key cache) = None \<longleftrightarrow>
          map_of cache key = None \<or>
          (\<exists>item. map_of cache key = Some item \<and> expiresAt item < now)"
    using assms by (cases "map_of cache key") (auto simp: CacheService_get_def)
  show "snd (CacheService_get now key cache) =
          (if \<exists>item. map_of cache key = Some item \<and> expiresAt item < now
           then AList.delete key cache else cache)"
    using assms by (cases "map_of cache key") (auto simp: CacheService_get_def)
  show "map_of (CacheService_set t0 key v (Some ttl) c0) =
          (map_of c0)(key \<mapsto> \<lparr>item_value = v, expiresAt = t0 + ttl * 1000, createdAt = t0\<rparr>)"
    by (rule map_of_CacheService_set)
  show "0 < t0 \<and> 0 \<le> ttl \<longrightarrow>
          (\<forall>item. map_of (CacheService_set t0 key v (Some ttl) c0) key = Some item \<longrightarrow>
             expiresAt item \<noteq> 0)"
  proof (intro impI allI)
    fix item
    assume pos: "0 < t0 \<and> 0 \<le> ttl"
      and "map_of (CacheService_set t0 key v (Some ttl) c0) key = Some item"
    then have "expiresAt item = t0 + ttl * 1000"
      by (auto simp: map_of_CacheService_set)
    moreover have "0 \<le> ttl * 1000" using pos by simp
    ultimately show "expiresAt item \<noteq> 0" using pos by linarith
  qed
  show "t < t0 + ttl * 1000 \<longrightarrow>
          fst (CacheService_get t key (CacheService_set t0 key v (Some ttl) c0)) = Some v"
    by (simp add: CacheService_get_def map_of_CacheService_set)
qed

theorem cache_get_set_witness:
  "fst (CacheService_get 6000 ''k''
          [(''k'', \<lparr>item_value = ''v'', expiresAt = 5000, createdAt = 4000\<rparr>)]) = None \<and>
   snd (CacheService_get 6000 ''k''
          [(''k'', \<lparr>item_value = ''v'', expiresAt = 5000, createdAt = 4000\<rparr>)]) = [] \<and>
   fst (CacheService_get 1999 ''k''
          (CacheService_set 1000 ''k'' ''w'' (Some 1)
             [(''k'', \<lparr>item_value = ''v'', expiresAt = 5000, createdAt = 4000\<rparr>)])) = Some ''w''"
  using cache_get_set
    [where cache = "[(''k'', \<lparr>item_value = ''v'', expiresAt = 5000, createdAt = 4000\<rparr>)]"
       and key = "''k''" and now = 6000 and ?t0.0 = 1000 and v = "''w''" and ttl = 1
       and ?c0.0 = "[(''k'', \<lparr>item_value = ''v'', expiresAt = 5000, createdAt = 4000\<rparr>)]"
       and t = 1999]
  by simp

end
